theory Spec2Isabelle
  imports Complex_Main "HOL-Library.Sublist"
begin

section \<open>Fleet dashboard: the command runner of hub/dashboard.py\<close>

text \<open>
  \<^verbatim>\<open>_run(cmd, timeout)\<close> calls \<^verbatim>\<open>subprocess.run(cmd, capture_output=True, text=True,
  timeout=timeout)\<close> and turns what happens into a dictionary. What the child process does is
  outside the program, so it is an input of the model: the call either returns a completed
  process (return code, stdout, stderr), or raises \<^verbatim>\<open>TimeoutExpired\<close> carrying whatever output
  was captured so far (each stream possibly \<^verbatim>\<open>None\<close>), or raises something else (for instance
  \<^verbatim>\<open>FileNotFoundError\<close>), which \<^verbatim>\<open>_run\<close> does not catch.
\<close>

datatype run_outcome =
    CompletedProcess int string string
  | TimeoutExpired "string option" "string option"
  | OtherException

datatype run_error = Uncaught

record run_result =
  ok :: bool
  returncode :: "int option"
  stdout :: string
  stderr :: string
  seconds :: real
  cmd :: string

text \<open>
  \<^verbatim>\<open>s[-12000:]\<close>: the last 12000 characters, the whole string when it is shorter
  (subtraction on \<^typ>\<open>nat\<close> stops at 0, as the slice clamps its start).
\<close>

definition cap_output :: "string \<Rightarrow> string" where
  "cap_output s = drop (length s - 12000) s"

text \<open>\<^verbatim>\<open>x or d\<close> on an optional string: \<^verbatim>\<open>None\<close> and the empty string are both falsy.\<close>

definition py_or :: "string option \<Rightarrow> string \<Rightarrow> string" where
  "py_or x d = (case x of None \<Rightarrow> d | Some s \<Rightarrow> if s = [] then d else s)"

text \<open>
  \<^verbatim>\<open>shlex.quote\<close> of the standard library: the empty string becomes two quotes, a string of
  safe characters (ASCII letters, digits, underscore and \<^verbatim>\<open>@%+=:,./-\<close>) is kept, anything else
  is wrapped in single quotes with each single quote replaced by \<^verbatim>\<open>'"'"'\<close>.
\<close>

definition safe_char :: "char \<Rightarrow> bool" where
  "safe_char c =
     (let n = (of_char c :: nat)
      in (48 \<le> n \<and> n \<le> 57) \<or> (65 \<le> n \<and> n \<le> 90) \<or> (97 \<le> n \<and> n \<le> 122)
         \<or> c \<in> set ''_@%+=:,./-'')"

definition quote_char :: "char \<Rightarrow> string" where
  "quote_char c =
     (if c = CHR 0x27 then [CHR 0x27, CHR 0x22, CHR 0x27, CHR 0x22, CHR 0x27] else [c])"

definition shlex_quote :: "string \<Rightarrow> string" where
  "shlex_quote s =
     (if s = [] then [CHR 0x27, CHR 0x27]
      else if list_all safe_char s then s
      else [CHR 0x27] @ concat (map quote_char s) @ [CHR 0x27])"

text \<open>\<^verbatim>\<open>" ".join(xs)\<close>.\<close>

fun join_space :: "string list \<Rightarrow> string" where
  "join_space [] = []"
| "join_space [x] = x"
| "join_space (x # y # ys) = x @ '' '' @ join_space (y # ys)"

text \<open>
  \<^verbatim>\<open>round(x, 2)\<close>, read on the reals: the nearest multiple of 1/100, a tie going to the even
  one. (Python rounds a binary float; the representation error of the float is not modelled.)
\<close>

definition round2 :: "real \<Rightarrow> real" where
  "round2 x =
     (let y = x * 100; f = \<lfloor>y\<rfloor>; d = y - of_int f
      in of_int (if d < 1 / 2 then f
                 else if 1 / 2 < d then f + 1
                 else if even f then f else f + 1) / 100)"

text \<open>
  \<^verbatim>\<open>_run\<close>. \<open>argv\<close> is the source's parameter \<^verbatim>\<open>cmd\<close>; \<open>started\<close> and \<open>finished\<close> are the two
  readings of \<^verbatim>\<open>time.time()\<close>.
\<close>

definition run :: "string list \<Rightarrow> run_outcome \<Rightarrow> real \<Rightarrow> real \<Rightarrow> run_error + run_result" where
  "run argv outcome started finished =
     (case outcome of
        CompletedProcess rc out err \<Rightarrow>
          Inr \<lparr> ok = (rc = 0), returncode = Some rc,
                stdout = cap_output out, stderr = cap_output err,
                seconds = round2 (finished - started),
                cmd = join_space (map shlex_quote argv) \<rparr>
      | TimeoutExpired out err \<Rightarrow>
          Inr \<lparr> ok = False, returncode = None,
                stdout = cap_output (py_or out []),
                stderr = cap_output (py_or err ''Timed out''),
                seconds = round2 (finished - started),
                cmd = join_space (map shlex_quote argv) \<rparr>
      | OtherException \<Rightarrow> Inl Uncaught)"

section \<open>Camera server: the CameraManager of rpi-cam-server.py\<close>

subsection \<open>Shared state, external calls, exceptions\<close>

text \<open>The three locks of the manager: \<^verbatim>\<open>_frame_lock\<close>, \<^verbatim>\<open>_camera_lock\<close>, \<^verbatim>\<open>_record_lock\<close>.\<close>

datatype lock = FrameLock | CameraLock | RecordLock

text \<open>
  Every call into the camera library, the encoder backend and OpenCV that the modelled methods
  make, named by its place in the source. Each of them can raise; whether it does is decided
  outside the program, so it is an input (\<open>raises\<close> below).
  \<^item> \<open>NewEncoder\<close>: \<^verbatim>\<open>H264Encoder(bitrate=10_000_000)\<close> in \<^verbatim>\<open>record_clip\<close>
  \<^item> \<open>NewOutput\<close>: \<^verbatim>\<open>FfmpegOutput(str(path))\<close> in \<^verbatim>\<open>record_clip\<close>
  \<^item> \<open>StartRecording\<close>: \<^verbatim>\<open>picam2.start_recording(encoder, output)\<close> in \<^verbatim>\<open>record_clip\<close>
  \<^item> \<open>TimeSleep\<close>: \<^verbatim>\<open>time.sleep(max(1, int(duration)))\<close> in \<^verbatim>\<open>record_clip\<close>, where it is the
    operating system that refuses the duration (see \<open>time_sleep\<close> below)
  \<^item> \<open>StopRecording\<close>: \<^verbatim>\<open>picam2.stop_recording()\<close> in \<^verbatim>\<open>record_clip\<close>
  \<^item> \<open>CloseOutput\<close>: \<^verbatim>\<open>output.close()\<close> in the \<^verbatim>\<open>finally\<close> block of \<^verbatim>\<open>record_clip\<close>
  \<^item> \<open>RestartStopRecording\<close>, \<open>RestartStop\<close>, \<open>RestartConfigure\<close>, \<open>RestartStart\<close>: the four
    calls of \<^verbatim>\<open>_restart_camera\<close>, in source order
  \<^item> \<open>CaptureArray\<close>: \<^verbatim>\<open>picam2.capture_array("main")\<close> in \<^verbatim>\<open>capture_still\<close>
  \<^item> \<open>ImWrite\<close>: \<^verbatim>\<open>cv2.imwrite(str(path), frame)\<close> in \<^verbatim>\<open>capture_still\<close>
\<close>

datatype site =
    NewEncoder | NewOutput | StartRecording | TimeSleep | StopRecording | CloseOutput
  | RestartStopRecording | RestartStop | RestartConfigure | RestartStart
  | CaptureArray | ImWrite

text \<open>
  An exception is the one an external call raised, or one of the two that \<^verbatim>\<open>time.sleep\<close> raises
  on its argument alone.
\<close>

datatype exn = Raised site | OverflowError | ValueError

text \<open>
  What a run does, in order: lock operations, external calls (recorded whether or not they
  raise), a sleep that took place with its length in seconds, writes of \<^verbatim>\<open>_recording\<close>, and
  the start of a \<^verbatim>\<open>record_clip\<close> thread with its duration argument.
\<close>

datatype event =
    Acquire lock | Release lock | Call site | Sleep int | SetRecording bool | StartThread int

text \<open>
  The manager's fields that the modelled methods touch, the media directory's files (path to
  the frame written there), the threads started by \<^verbatim>\<open>start_record_clip_async\<close> that have not
  run yet, the local variable \<^verbatim>\<open>output\<close> of \<^verbatim>\<open>record_clip\<close> (\<open>output_sink\<close>: \<open>None\<close>, or the
  path the sink was opened on), and the trace. \<open>'f\<close> is the type of frames.
\<close>

record 'f world =
  base_dir :: string
  preview_frame :: "'f option"
  recording :: bool
  motion_stop_evt :: bool
  threads :: "int list"
  files :: "string \<rightharpoonup> 'f"
  output_sink :: "string option"
  trace :: "event list"

text \<open>
  The behaviour of the world outside the program during one method call: which external calls
  raise, whether the sink object has a \<^verbatim>\<open>close\<close> attribute (\<^verbatim>\<open>hasattr(output, "close")\<close>), the
  value \<^verbatim>\<open>cv2.imwrite\<close> returns (whether it wrote the file), and the frame a device pull
  returns.
\<close>

record 'f env =
  raises :: "site \<Rightarrow> bool"
  has_close :: bool
  imwrite_result :: bool
  device_frame :: 'f

subsection \<open>Statements: state passing with exceptions\<close>

type_synonym ('f, 'a) prog = "'f world \<Rightarrow> (exn + 'a) \<times> 'f world"

definition ret :: "'a \<Rightarrow> ('f, 'a) prog" where
  "ret x w = (Inr x, w)"

text \<open>Sequencing: an exception of the first statement skips the second.\<close>

definition bind_prog :: "('f, 'a) prog \<Rightarrow> ('a \<Rightarrow> ('f, 'b) prog) \<Rightarrow> ('f, 'b) prog" where
  "bind_prog m f w = (case m w of (Inl e, w') \<Rightarrow> (Inl e, w') | (Inr x, w') \<Rightarrow> f x w')"

text \<open>An external call: it is made, and raises when the environment says so.\<close>

definition call :: "'f env \<Rightarrow> site \<Rightarrow> ('f, unit) prog" where
  "call en s w =
     (if raises en s then Inl (Raised s) else Inr (), w\<lparr>trace := trace w @ [Call s]\<rparr>)"

text \<open>\<^verbatim>\<open>try: m  except Exception: pass\<close>.\<close>

definition try_pass :: "('f, 'a) prog \<Rightarrow> ('f, unit) prog" where
  "try_pass m w = (case m w of (r, w') \<Rightarrow> (Inr (), w'))"

text \<open>\<^verbatim>\<open>with lock: m\<close>: the lock is released on every way out of the block.\<close>

definition with_lock :: "lock \<Rightarrow> ('f, 'a) prog \<Rightarrow> ('f, 'a) prog" where
  "with_lock l m w =
     (case m (w\<lparr>trace := trace w @ [Acquire l]\<rparr>) of
        (r, w') \<Rightarrow> (r, w'\<lparr>trace := trace w' @ [Release l]\<rparr>))"

text \<open>
  \<^verbatim>\<open>try: m  finally: fin\<close>: \<open>fin\<close> runs after \<open>m\<close> however \<open>m\<close> ends; the outcome is that of
  \<open>m\<close>, unless \<open>fin\<close> itself raises.
\<close>

definition try_finally :: "('f, 'a) prog \<Rightarrow> ('f, unit) prog \<Rightarrow> ('f, 'a) prog" where
  "try_finally m fin w =
     (case m w of
        (r, w') \<Rightarrow> (case fin w' of (Inl e, w'') \<Rightarrow> (Inl e, w'') | (Inr u, w'') \<Rightarrow> (r, w'')))"

text \<open>
  \<^verbatim>\<open>str(base_dir / name)\<close> for a file name without a slash, \<open>d\<close> being \<^verbatim>\<open>str(base_dir)\<close>: the
  rendering of a path is never empty, is \<^verbatim>\<open>.\<close> for the current directory, which the join
  drops, and ends in a slash only when it is a root, after which no separator is added.
\<close>

definition path_join :: "string \<Rightarrow> string \<Rightarrow> string" where
  "path_join d name =
     (if d = ''.'' then name
      else if d \<noteq> [] \<and> last d = CHR ''/'' then d @ name
      else d @ ''/'' @ name)"

text \<open>
  \<^verbatim>\<open>time.sleep(secs)\<close> on a whole number of seconds. The interpreter converts the duration to
  a signed 64-bit count of nanoseconds and raises \<^verbatim>\<open>OverflowError\<close> when it does not fit, which
  for the argument of \<^verbatim>\<open>record_clip\<close> (at least 1) is from 9223372037 seconds upward; it raises
  \<^verbatim>\<open>ValueError\<close> for a negative duration. A duration that passes both checks can still be
  refused by the operating system (a deadline beyond what its clock can hold), which is up to
  the environment. Only a sleep that takes place is recorded in the trace.
\<close>

definition sleep_overflows :: "int \<Rightarrow> bool" where
  "sleep_overflows secs \<longleftrightarrow>
     secs * 1000000000 < - 9223372036854775808 \<or> 9223372036854775807 < secs * 1000000000"

definition time_sleep :: "'f env \<Rightarrow> int \<Rightarrow> ('f, unit) prog" where
  "time_sleep en secs w =
     (if sleep_overflows secs then (Inl OverflowError, w)
      else if secs < 0 then (Inl ValueError, w)
      else if raises en TimeSleep then (Inl (Raised TimeSleep), w)
      else (Inr (), w\<lparr>trace := trace w @ [Sleep secs]\<rparr>))"

text \<open>The lengths of the sleeps in a trace, in order.\<close>

fun sleeps :: "event list \<Rightarrow> int list" where
  "sleeps [] = []"
| "sleeps (Sleep n # es) = n # sleeps es"
| "sleeps (e # es) = sleeps es"

subsection \<open>\<^verbatim>\<open>_restart_camera\<close>\<close>

definition restart_camera :: "'f env \<Rightarrow> ('f, unit) prog" where
  "restart_camera en =
     with_lock CameraLock
       (bind_prog (try_pass (call en RestartStopRecording)) (\<lambda>_.
        bind_prog (try_pass (call en RestartStop)) (\<lambda>_.
        bind_prog (call en RestartConfigure) (\<lambda>_.
        call en RestartStart))))"

subsection \<open>\<^verbatim>\<open>capture_still\<close>\<close>

text \<open>
  \<^verbatim>\<open>with self._frame_lock: frame = None if self._preview_frame is None else
  self._preview_frame.copy()\<close>.
\<close>

definition read_preview_frame :: "('f, 'f option) prog" where
  "read_preview_frame = with_lock FrameLock (\<lambda>w. (Inr (preview_frame w), w))"

text \<open>
  \<^verbatim>\<open>cv2.imwrite(str(path), frame)\<close>: the file holds the frame when the call returns true; its
  return value is not looked at by the caller.
\<close>

definition imwrite :: "'f env \<Rightarrow> string \<Rightarrow> 'f \<Rightarrow> ('f, unit) prog" where
  "imwrite en path frame =
     bind_prog (call en ImWrite) (\<lambda>_ w.
       (Inr (), if imwrite_result en then w\<lparr>files := (files w)(path \<mapsto> frame)\<rparr> else w))"

text \<open>\<open>ts\<close> is \<^verbatim>\<open>datetime.now().strftime("%Y%m%d_%H%M%S")\<close>, the clock read to the second.\<close>

definition capture_still :: "'f env \<Rightarrow> string \<Rightarrow> ('f, string) prog" where
  "capture_still en ts =
     (\<lambda>w. let path = path_join (base_dir w) (''still_'' @ ts @ ''.jpg'') in
       bind_prog read_preview_frame (\<lambda>slot.
       bind_prog (case slot of
                    None \<Rightarrow> with_lock CameraLock
                              (bind_prog (call en CaptureArray) (\<lambda>_. ret (device_frame en)))
                  | Some frame \<Rightarrow> ret frame) (\<lambda>frame.
       bind_prog (imwrite en path frame) (\<lambda>_.
       ret path))) w)"

subsection \<open>\<^verbatim>\<open>record_clip\<close> and \<^verbatim>\<open>start_record_clip_async\<close>\<close>

text \<open>
  The first block of \<^verbatim>\<open>record_clip\<close>: under the record lock, give up when a recording is
  active, otherwise set the flag. The result says whether the method goes on.
\<close>

definition record_clip_enter :: "('f, bool) prog" where
  "record_clip_enter =
     with_lock RecordLock
       (\<lambda>w. if recording w then (Inr False, w)
            else (Inr True, w\<lparr>recording := True, trace := trace w @ [SetRecording True]\<rparr>))"

text \<open>The \<^verbatim>\<open>try\<close> block; \<open>duration\<close> is an \<^verbatim>\<open>int\<close>, on which \<^verbatim>\<open>int(duration)\<close> is the identity.\<close>

definition record_clip_body :: "'f env \<Rightarrow> string \<Rightarrow> int \<Rightarrow> ('f, string) prog" where
  "record_clip_body en ts duration =
     (\<lambda>w. let path = path_join (base_dir w) (''clip_'' @ ts @ ''.mp4'') in
       bind_prog (call en NewEncoder) (\<lambda>_.
       bind_prog (call en NewOutput) (\<lambda>_.
       bind_prog (\<lambda>w. (Inr (), w\<lparr>output_sink := Some path\<rparr>)) (\<lambda>_.
       bind_prog (with_lock CameraLock (call en StartRecording)) (\<lambda>_.
       bind_prog (time_sleep en (max 1 duration)) (\<lambda>_.
       bind_prog (with_lock CameraLock (call en StopRecording)) (\<lambda>_.
       bind_prog (try_pass (restart_camera en)) (\<lambda>_.
       ret path))))))) w)"

text \<open>The \<^verbatim>\<open>finally\<close> block.\<close>

definition record_clip_cleanup :: "'f env \<Rightarrow> ('f, unit) prog" where
  "record_clip_cleanup en =
     bind_prog (try_pass (\<lambda>w. if output_sink w \<noteq> None \<and> has_close en
                               then call en CloseOutput w else ret () w)) (\<lambda>_.
     with_lock RecordLock
       (\<lambda>w. (Inr (), w\<lparr>recording := False, trace := trace w @ [SetRecording False]\<rparr>)))"

text \<open>Everything after the first block: \<^verbatim>\<open>output = None\<close>, then \<^verbatim>\<open>try\<close> / \<^verbatim>\<open>finally\<close>.\<close>

definition record_clip_work :: "'f env \<Rightarrow> string \<Rightarrow> int \<Rightarrow> ('f, string) prog" where
  "record_clip_work en ts duration =
     bind_prog (\<lambda>w. (Inr (), w\<lparr>output_sink := None\<rparr>)) (\<lambda>_.
     try_finally (record_clip_body en ts duration) (record_clip_cleanup en))"

text \<open>The whole method; the result is \<open>None\<close> when it gave up at the start.\<close>

definition record_clip :: "'f env \<Rightarrow> string \<Rightarrow> int \<Rightarrow> ('f, string option) prog" where
  "record_clip en ts duration =
     bind_prog record_clip_enter (\<lambda>go.
       if go then bind_prog (record_clip_work en ts duration) (\<lambda>p. ret (Some p))
       else ret None)"

text \<open>
  \<^verbatim>\<open>start_record_clip_async\<close>: the flag is read under the record lock; the thread is started
  after the lock is released. Starting a thread does not run it: the new thread is put in
  \<open>threads\<close>, and its \<^verbatim>\<open>record_clip\<close> runs when the scheduler picks it.
\<close>

definition start_record_clip_async :: "int \<Rightarrow> ('f, bool) prog" where
  "start_record_clip_async duration =
     bind_prog (with_lock RecordLock (\<lambda>w. (Inr (recording w), w))) (\<lambda>busy.
       if busy then ret False
       else bind_prog (\<lambda>w. (Inr (), w\<lparr>threads := threads w @ [duration],
                                       trace := trace w @ [StartThread duration]\<rparr>)) (\<lambda>_.
            ret True))"

text \<open>
  The duration a request without one gets: \<^verbatim>\<open>request.json.get("duration", 30)\<close> in
  \<^verbatim>\<open>api_record_clip\<close>, and the default of the parameter \<^verbatim>\<open>duration\<close> of both recording methods.
\<close>

definition api_duration :: "int option \<Rightarrow> int" where
  "api_duration d = (case d of None \<Rightarrow> 30 | Some n \<Rightarrow> n)"

subsection \<open>\<^verbatim>\<open>_motion_loop\<close>\<close>

text \<open>
  The image operations are OpenCV's: \<open>smooth\<close> is \<^verbatim>\<open>cvtColor\<close> to grey followed by
  \<^verbatim>\<open>GaussianBlur\<close>; \<open>contour_areas\<close> is \<^verbatim>\<open>absdiff\<close>, \<^verbatim>\<open>threshold\<close>, \<^verbatim>\<open>dilate\<close>, \<^verbatim>\<open>findContours\<close> and
  the \<^verbatim>\<open>contourArea\<close> of each contour found.
\<close>

record ('f, 'g) vision =
  smooth :: "'f \<Rightarrow> 'g"
  contour_areas :: "'g \<Rightarrow> 'g \<Rightarrow> real list"

text \<open>
  One pass of the loop sees what the other threads did to the shared state since the previous
  pass (\<open>others\<close>) and, if it gets that far, reads \<^verbatim>\<open>time.time()\<close> (\<open>clock\<close>, a real number:
  float rounding is not modelled).
\<close>

record 'f tick =
  others :: "'f world \<Rightarrow> 'f world"
  clock :: real

text \<open>
  The loop's local variables, and a log of its calls of \<^verbatim>\<open>start_record_clip_async\<close>: when,
  with which duration, and what the call returned. The log is not in the source; it is what
  the properties of the loop are stated on.
\<close>

record request =
  trigger_time :: real
  duration_arg :: int
  accepted :: bool

record 'g motion =
  prev_gray :: "'g option"
  cool_down_until :: real
  requests :: "request list"

definition motion_init :: "'g motion" where
  "motion_init = \<lparr>prev_gray = None, cool_down_until = 0, requests = []\<rparr>"

definition motion_detected :: "('f, 'g) vision \<Rightarrow> 'g \<Rightarrow> 'g \<Rightarrow> bool" where
  "motion_detected vis prev gray = list_ex (\<lambda>a. 1500 < a) (contour_areas vis prev gray)"

text \<open>The body of the \<^verbatim>\<open>while\<close> loop (the pacing sleeps are left out).\<close>

definition motion_iteration ::
  "('f, 'g) vision \<Rightarrow> 'f tick \<Rightarrow> 'g motion \<Rightarrow> ('f, 'g motion) prog" where
  "motion_iteration vis tk m =
     bind_prog read_preview_frame (\<lambda>slot.
       case slot of
         None \<Rightarrow> ret m
       | Some frame \<Rightarrow>
           let gray = smooth vis frame in
           (case prev_gray m of
              None \<Rightarrow> ret (m\<lparr>prev_gray := Some gray\<rparr>)
            | Some prev \<Rightarrow>
                let now = clock tk in
                bind_prog
                  (if motion_detected vis prev gray \<and> cool_down_until m < now
                   then bind_prog (start_record_clip_async 30) (\<lambda>acc.
                          ret (m\<lparr>cool_down_until := now + 40,
                                 requests := requests m
                                   @ [\<lparr>trigger_time = now, duration_arg = 30, accepted = acc\<rparr>]\<rparr>))
                   else ret m) (\<lambda>m'.
                ret (m'\<lparr>prev_gray := Some gray\<rparr>))))"

text \<open>
  The loop, run over the passes observed so far: it leaves when the stop event is set. The
  list is a finite prefix of a run that has no bound of its own.
\<close>

fun motion_passes ::
  "('f, 'g) vision \<Rightarrow> 'f tick list \<Rightarrow> 'g motion \<Rightarrow> ('f, 'g motion) prog" where
  "motion_passes vis [] m w = (Inr m, w)"
| "motion_passes vis (tk # tks) m w =
     (let w1 = others tk w in
      if motion_stop_evt w1 then (Inr m, w1)
      else case motion_iteration vis tk m w1 of
             (Inl e, w2) \<Rightarrow> (Inl e, w2)
           | (Inr m', w2) \<Rightarrow> motion_passes vis tks m' w2)"

definition motion_loop :: "('f, 'g) vision \<Rightarrow> 'f tick list \<Rightarrow> ('f, 'g motion) prog" where
  "motion_loop vis tks = motion_passes vis tks motion_init"

text \<open>
  The requests of a run are well spaced when each comes more than the cooldown window after
  the one before, none comes later than the deadline allows, and each asks for 30 seconds.
\<close>

definition spaced :: "'g motion \<Rightarrow> bool" where
  "spaced m \<longleftrightarrow>
     sorted_wrt (\<lambda>a b. trigger_time a + 40 < trigger_time b) (requests m)
   \<and> (\<forall>r \<in> set (requests m). trigger_time r + 40 \<le> cool_down_until m \<and> duration_arg r = 30)"

subsection \<open>Concrete inputs\<close>

text \<open>
  A manager just constructed, with no frame published yet and no file in its media directory;
  the same with frame 5 in the slot; an environment in which exactly the listed external calls
  raise, and the same with a sink object that has no \<^verbatim>\<open>close\<close>; frames as numbers, with one contour of area 2000 whenever two frames differ; and a
  pass of the motion loop before which another thread published a frame and the recording
  flag had the given value.
\<close>

definition idle :: "nat world" where
  "idle = \<lparr>base_dir = ''/srv/media'', preview_frame = None, recording = False,
            motion_stop_evt = False, threads = [], files = Map.empty, output_sink = None,
            trace = []\<rparr>"

definition streaming :: "nat world" where
  "streaming = idle\<lparr>preview_frame := Some 5\<rparr>"

definition failing :: "site list \<Rightarrow> nat env" where
  "failing ss = \<lparr>raises = (\<lambda>s. s \<in> set ss), has_close = True, imwrite_result = True,
                  device_frame = 7\<rparr>"

definition without_close :: "nat env \<Rightarrow> nat env" where
  "without_close en = en\<lparr>has_close := False\<rparr>"

definition toy_vision :: "(nat, nat) vision" where
  "toy_vision = \<lparr>smooth = (\<lambda>f. f), contour_areas = (\<lambda>p g. if p = g then [] else [2000])\<rparr>"

definition publish :: "nat \<Rightarrow> bool \<Rightarrow> real \<Rightarrow> nat tick" where
  "publish f busy t =
     \<lparr>others = (\<lambda>w. w\<lparr>preview_frame := Some f, recording := busy\<rparr>), clock = t\<rparr>"

section \<open>Properties of the command runner\<close>

lemma cap_output_length: "length (cap_output s) = min 12000 (length s)"
  by (simp add: cap_output_def)

lemma cap_output_suffix: "suffix (cap_output s) s"
  by (simp add: cap_output_def suffix_drop)

lemma cap_output_short: "length s \<le> 12000 \<Longrightarrow> cap_output s = s"
  by (simp add: cap_output_def)

text \<open>
  Claim C9. When the command exceeds its timeout (\<^verbatim>\<open>subprocess.run\<close> raises
  \<^verbatim>\<open>TimeoutExpired\<close>), \<^verbatim>\<open>_run\<close> does not raise: it returns a result with \<open>ok\<close> false and no return
  code, the output captured so far (its last 12000 characters; nothing for a missing stdout,
  the text \<^verbatim>\<open>Timed out\<close> for a missing or empty stderr), the elapsed seconds rounded to two
  places, and the command line with each argument shell-quoted.
\<close>

theorem run_timeout_returns_failure_result:
  "\<exists>r. run argv (TimeoutExpired out err) started finished = Inr r
      \<and> \<not> ok r \<and> returncode r = None
      \<and> stdout r = cap_output (py_or out [])
      \<and> stderr r = cap_output (py_or err ''Timed out'')
      \<and> (\<forall>s. out = Some s \<longrightarrow> suffix (stdout r) s \<and> (length s \<le> 12000 \<longrightarrow> stdout r = s))
      \<and> (\<forall>s. err = Some s \<and> s \<noteq> [] \<longrightarrow>
             suffix (stderr r) s \<and> (length s \<le> 12000 \<longrightarrow> stderr r = s))
      \<and> (out = None \<longrightarrow> stdout r = [])
      \<and> (err = None \<or> err = Some [] \<longrightarrow> stderr r = ''Timed out'')
      \<and> seconds r = round2 (finished - started)
      \<and> cmd r = join_space (map shlex_quote argv)"
  by (auto simp: run_def py_or_def cap_output_suffix cap_output_short)

theorem run_timeout_returns_failure_result_witness:
  "\<exists>r. run [''ssh'', ''-o'', ''BatchMode=yes'', ''pi@cam1'',
             ''sudo systemctl restart rpi-cam-server'']
          (TimeoutExpired (Some ''partial'') None) 100 (220.004) = Inr r
     \<and> \<not> ok r \<and> returncode r = None \<and> stdout r = ''partial'' \<and> stderr r = ''Timed out''
     \<and> seconds r = 120
     \<and> cmd r = ''ssh -o BatchMode=yes pi@cam1 '' @ [CHR 0x27]
               @ ''sudo systemctl restart rpi-cam-server'' @ [CHR 0x27]"
  using run_timeout_returns_failure_result
    [of "[''ssh'', ''-o'', ''BatchMode=yes'', ''pi@cam1'',
          ''sudo systemctl restart rpi-cam-server'']"
        "Some ''partial''" None 100 "220.004"]
  by (auto simp: cap_output_def py_or_def round2_def shlex_quote_def safe_char_def
        quote_char_def)

text \<open>
  Claim C10. Whether the command completes or times out, the \<open>stdout\<close> and \<open>stderr\<close> of the
  result are the last 12000 characters of the captured text, and all of it when it is shorter:
  a suffix of it, of length the smaller of 12000 and its length. (On a timeout the captured
  text is read through the defaults of the source: empty for a missing stdout, \<^verbatim>\<open>Timed out\<close>
  for a missing or empty stderr.)
\<close>

theorem run_output_capped:
  "(\<exists>r. run argv (CompletedProcess rc out err) started finished = Inr r
       \<and> stdout r = drop (length out - 12000) out
       \<and> stderr r = drop (length err - 12000) err
       \<and> suffix (stdout r) out \<and> suffix (stderr r) err
       \<and> length (stdout r) = min 12000 (length out)
       \<and> length (stderr r) = min 12000 (length err)
       \<and> length (stdout r) \<le> 12000 \<and> length (stderr r) \<le> 12000)
 \<and> (\<exists>r. run argv (TimeoutExpired pout perr) started finished = Inr r
       \<and> suffix (stdout r) (py_or pout []) \<and> suffix (stderr r) (py_or perr ''Timed out'')
       \<and> length (stdout r) = min 12000 (length (py_or pout []))
       \<and> length (stderr r) = min 12000 (length (py_or perr ''Timed out''))
       \<and> length (stdout r) \<le> 12000 \<and> length (stderr r) \<le> 12000)"
  by (auto simp: run_def cap_output_def suffix_drop)

theorem run_output_capped_witness:
  "(\<exists>r. run [''bash'', ''update_all.sh'']
           (CompletedProcess 0 (replicate 12005 CHR ''x'') ''warn'') 0 3 = Inr r
       \<and> stdout r = replicate 12000 CHR ''x'' \<and> stderr r = ''warn'')
 \<and> (\<exists>r. run [''bash'', ''update_all.sh'']
           (TimeoutExpired (Some (replicate 12005 CHR ''x'')) None) 0 3 = Inr r
       \<and> length (stdout r) = 12000 \<and> stderr r = ''Timed out'')"
  using run_output_capped
    [of "[''bash'', ''update_all.sh'']" 0 "replicate 12005 CHR ''x''" "''warn''" 0 3
        "Some (replicate 12005 CHR ''x'')" None]
  by (auto simp: py_or_def run_def cap_output_def)

section \<open>Properties of the camera manager\<close>

subsection \<open>What each method does, as one equation\<close>

lemma restart_camera_eq:
  "restart_camera en w =
     (if raises en RestartConfigure then Inl (Raised RestartConfigure)
      else if raises en RestartStart then Inl (Raised RestartStart)
      else Inr (),
      w\<lparr>trace := trace w
           @ [Acquire CameraLock, Call RestartStopRecording, Call RestartStop,
              Call RestartConfigure]
           @ (if raises en RestartConfigure then [] else [Call RestartStart])
           @ [Release CameraLock]\<rparr>)"
  by (simp add: restart_camera_def with_lock_def bind_prog_def try_pass_def call_def)

lemma record_clip_enter_eq:
  "record_clip_enter w =
     (if recording w
      then (Inr False, w\<lparr>trace := trace w @ [Acquire RecordLock, Release RecordLock]\<rparr>)
      else (Inr True,
            w\<lparr>recording := True,
              trace := trace w @ [Acquire RecordLock, SetRecording True, Release RecordLock]\<rparr>))"
  by (simp add: record_clip_enter_def with_lock_def)

lemma record_clip_cleanup_eq:
  "record_clip_cleanup en w =
     (Inr (),
      w\<lparr>recording := False,
        trace := trace w
          @ (if output_sink w \<noteq> None \<and> has_close en then [Call CloseOutput] else [])
          @ [Acquire RecordLock, SetRecording False, Release RecordLock]\<rparr>)"
  by (simp add: record_clip_cleanup_def with_lock_def bind_prog_def try_pass_def call_def
        ret_def)

lemma sleeps_append: "sleeps (xs @ ys) = sleeps xs @ sleeps ys"
  by (induction xs rule: sleeps.induct) simp_all

lemma sleep_overflows_clamped: "sleep_overflows (max 1 d) \<longleftrightarrow> 9223372036 < d"
  unfolding sleep_overflows_def max_def by (cases "1 \<le> d") auto

lemma time_sleep_clamped_eq:
  "time_sleep en (max 1 d) w =
     (if 9223372036 < d then (Inl OverflowError, w)
      else if raises en TimeSleep then (Inl (Raised TimeSleep), w)
      else (Inr (), w\<lparr>trace := trace w @ [Sleep (max 1 d)]\<rparr>))"
  by (simp add: time_sleep_def sleep_overflows_clamped)

lemma record_clip_body_eq:
  "record_clip_body en ts d w =
    (if raises en NewEncoder then Inl (Raised NewEncoder)
     else if raises en NewOutput then Inl (Raised NewOutput)
     else if raises en StartRecording then Inl (Raised StartRecording)
     else if 9223372036 < d then Inl OverflowError
     else if raises en TimeSleep then Inl (Raised TimeSleep)
     else if raises en StopRecording then Inl (Raised StopRecording)
     else Inr (path_join (base_dir w) (''clip_'' @ ts @ ''.mp4'')),
     w\<lparr>output_sink :=
         (if raises en NewEncoder \<or> raises en NewOutput then output_sink w
          else Some (path_join (base_dir w) (''clip_'' @ ts @ ''.mp4''))),
       trace := trace w @ [Call NewEncoder]
         @ (if raises en NewEncoder then [] else [Call NewOutput]
         @ (if raises en NewOutput then []
            else [Acquire CameraLock, Call StartRecording, Release CameraLock]
         @ (if raises en StartRecording \<or> 9223372036 < d \<or> raises en TimeSleep then []
            else [Sleep (max 1 d), Acquire CameraLock, Call StopRecording, Release CameraLock]
         @ (if raises en StopRecording then []
            else [Acquire CameraLock, Call RestartStopRecording, Call RestartStop,
                  Call RestartConfigure]
                 @ (if raises en RestartConfigure then [] else [Call RestartStart])
                 @ [Release CameraLock]))))\<rparr>)"
  by (simp add: record_clip_body_def Let_def bind_prog_def call_def with_lock_def
        time_sleep_clamped_eq try_pass_def restart_camera_eq ret_def)

text \<open>The \<^verbatim>\<open>finally\<close> block runs on the state the \<^verbatim>\<open>try\<close> block left, whatever its outcome.\<close>

lemma record_clip_work_eq:
  "record_clip_work en ts d w =
     (fst (record_clip_body en ts d (w\<lparr>output_sink := None\<rparr>)),
      snd (record_clip_cleanup en (snd (record_clip_body en ts d (w\<lparr>output_sink := None\<rparr>)))))"
  by (simp add: record_clip_work_def bind_prog_def try_finally_def record_clip_cleanup_eq
        split: prod.splits)

lemma record_clip_eq:
  "record_clip en ts d w =
     (if recording w
      then (Inr None, w\<lparr>trace := trace w @ [Acquire RecordLock, Release RecordLock]\<rparr>)
      else (map_sum id Some (fst (record_clip_work en ts d (snd (record_clip_enter w)))),
            snd (record_clip_work en ts d (snd (record_clip_enter w)))))"
  by (simp add: record_clip_def bind_prog_def record_clip_enter_eq ret_def record_clip_work_eq
        record_clip_body_eq)

lemma start_record_clip_async_eq:
  "start_record_clip_async d w =
     (if recording w
      then (Inr False, w\<lparr>trace := trace w @ [Acquire RecordLock, Release RecordLock]\<rparr>)
      else (Inr True,
            w\<lparr>threads := threads w @ [d],
              trace := trace w @ [Acquire RecordLock, Release RecordLock, StartThread d]\<rparr>))"
  by (simp add: start_record_clip_async_def with_lock_def bind_prog_def ret_def)

lemma read_preview_frame_eq:
  "read_preview_frame w =
     (Inr (preview_frame w), w\<lparr>trace := trace w @ [Acquire FrameLock, Release FrameLock]\<rparr>)"
  by (simp add: read_preview_frame_def with_lock_def)

lemma capture_still_eq:
  "capture_still en ts w =
     (let path = path_join (base_dir w) (''still_'' @ ts @ ''.jpg'') in
      case preview_frame w of
        Some frame \<Rightarrow>
          (if raises en ImWrite then Inl (Raised ImWrite) else Inr path,
           w\<lparr>files := (if \<not> raises en ImWrite \<and> imwrite_result en
                        then (files w)(path \<mapsto> frame) else files w),
             trace := trace w @ [Acquire FrameLock, Release FrameLock, Call ImWrite]\<rparr>)
      | None \<Rightarrow>
          (if raises en CaptureArray
           then (Inl (Raised CaptureArray),
                 w\<lparr>trace := trace w @ [Acquire FrameLock, Release FrameLock,
                                         Acquire CameraLock, Call CaptureArray,
                                         Release CameraLock]\<rparr>)
           else (if raises en ImWrite then Inl (Raised ImWrite) else Inr path,
                 w\<lparr>files := (if \<not> raises en ImWrite \<and> imwrite_result en
                              then (files w)(path \<mapsto> device_frame en) else files w),
                   trace := trace w @ [Acquire FrameLock, Release FrameLock,
                                       Acquire CameraLock, Call CaptureArray,
                                       Release CameraLock, Call ImWrite]\<rparr>)))"
  by (simp add: capture_still_def Let_def bind_prog_def read_preview_frame_eq imwrite_def
        call_def with_lock_def ret_def split: option.splits)

lemma motion_iteration_eq:
  "\<exists>w1. motion_iteration vis tk m0 w0 =
     (Inr (case preview_frame w0 of
             None \<Rightarrow> m0
           | Some frame \<Rightarrow>
               (case prev_gray m0 of
                  None \<Rightarrow> m0\<lparr>prev_gray := Some (smooth vis frame)\<rparr>
                | Some prev \<Rightarrow>
                    if motion_detected vis prev (smooth vis frame)
                       \<and> cool_down_until m0 < clock tk
                    then m0\<lparr>prev_gray := Some (smooth vis frame),
                            cool_down_until := clock tk + 40,
                            requests := requests m0
                              @ [\<lparr>trigger_time = clock tk, duration_arg = 30,
                                  accepted = (\<not> recording w0)\<rparr>]\<rparr>
                    else m0\<lparr>prev_gray := Some (smooth vis frame)\<rparr>)), w1)"
  by (auto simp: motion_iteration_def bind_prog_def read_preview_frame_eq ret_def Let_def
        start_record_clip_async_eq split: option.splits)

subsection \<open>Requests and the session flag\<close>

text \<open>
  A request never writes the flag: it only reads it. The flag is set later, by the first block
  of the thread's \<^verbatim>\<open>record_clip\<close>, which gives up when it finds the flag set.
\<close>

lemma start_record_clip_async_leaves_flag:
  "recording (snd (start_record_clip_async d w)) = recording w"
  by (simp add: start_record_clip_async_eq)

lemma record_clip_busy_gives_up:
  "recording w \<Longrightarrow>
   fst (record_clip en ts d w) = Inr None \<and> recording (snd (record_clip en ts d w))"
  by (simp add: record_clip_eq)

text \<open>
  Claim C1. At most one request is accepted until the accepted recording's cleanup has cleared
  the flag, because the request marks the session active before it launches the work. The
  source does not do this: on a manager that is idle, a request is accepted and leaves the flag
  unset; a second request made before the first thread has run is accepted as well, and two
  threads are started. When the first thread has then set the flag, the second thread's
  \<^verbatim>\<open>record_clip\<close> gives up and records nothing, although its request was answered with true.
\<close>

theorem start_record_clip_async_accepts_twice:
  "fst (start_record_clip_async 30 idle) = Inr True
 \<and> recording (snd (start_record_clip_async 30 idle)) = False
 \<and> fst (start_record_clip_async 30 (snd (start_record_clip_async 30 idle))) = Inr True
 \<and> threads (snd (start_record_clip_async 30 (snd (start_record_clip_async 30 idle))))
     = [30, 30]
 \<and> fst (record_clip (failing []) ''20260101_120000'' 30
          (snd (record_clip_enter
             (snd (start_record_clip_async 30 (snd (start_record_clip_async 30 idle)))))))
     = Inr None"
  by (simp add: start_record_clip_async_eq record_clip_eq record_clip_enter_eq idle_def)

subsection \<open>The recording work\<close>

text \<open>
  Claim C2, as stated: the restart sequence runs after every recording, failed or not. It does
  not when a step before it raises: with \<^verbatim>\<open>start_recording\<close> raising, the work goes from the
  failed call straight to the \<^verbatim>\<open>finally\<close> block, and no call of \<^verbatim>\<open>_restart_camera\<close> is in the
  trace.
\<close>

theorem record_clip_failed_start_skips_restart:
  "fst (record_clip (failing [StartRecording]) ''20260101_120000'' 30 idle)
     = Inl (Raised StartRecording)
 \<and> trace (snd (record_clip (failing [StartRecording]) ''20260101_120000'' 30 idle))
     = [Acquire RecordLock, SetRecording True, Release RecordLock,
        Call NewEncoder, Call NewOutput,
        Acquire CameraLock, Call StartRecording, Release CameraLock,
        Call CloseOutput,
        Acquire RecordLock, SetRecording False, Release RecordLock]"
  by (simp add: record_clip_eq record_clip_work_eq record_clip_enter_eq record_clip_body_eq
        record_clip_cleanup_eq failing_def idle_def)

text \<open>
  Claim C2, amended. A recording that starts on an idle manager runs the restart sequence
  exactly when every step before it succeeded: creating the encoder and the sink,
  \<^verbatim>\<open>start_recording\<close>, the sleep (whose duration the interpreter and the operating system
  must accept) and \<^verbatim>\<open>stop_recording\<close>. It then runs right after \<^verbatim>\<open>stop_recording\<close>, under the
  camera lock, and a failure inside it is swallowed: the cleanup follows and the clip's path
  is returned.
\<close>

theorem record_clip_restart_iff_steps_succeed:
  assumes "\<not> recording w"
  shows "\<exists>r w' evs. record_clip en ts d w = (r, w') \<and> trace w' = trace w @ evs
     \<and> (Call RestartStopRecording \<in> set evs \<longleftrightarrow>
          \<not> raises en NewEncoder \<and> \<not> raises en NewOutput \<and> \<not> raises en StartRecording
        \<and> d \<le> 9223372036 \<and> \<not> raises en TimeSleep \<and> \<not> raises en StopRecording)
     \<and> (\<not> raises en NewEncoder \<and> \<not> raises en NewOutput \<and> \<not> raises en StartRecording
        \<and> d \<le> 9223372036 \<and> \<not> raises en TimeSleep \<and> \<not> raises en StopRecording \<longrightarrow>
          r = Inr (Some (path_join (base_dir w) (''clip_'' @ ts @ ''.mp4'')))
        \<and> evs = [Acquire RecordLock, SetRecording True, Release RecordLock,
                  Call NewEncoder, Call NewOutput,
                  Acquire CameraLock, Call StartRecording, Release CameraLock,
                  Sleep (max 1 d),
                  Acquire CameraLock, Call StopRecording, Release CameraLock,
                  Acquire CameraLock, Call RestartStopRecording, Call RestartStop,
                  Call RestartConfigure]
                 @ (if raises en RestartConfigure then [] else [Call RestartStart])
                 @ [Release CameraLock]
                 @ (if has_close en then [Call CloseOutput] else [])
                 @ [Acquire RecordLock, SetRecording False, Release RecordLock])"
  using assms
  by (auto simp: record_clip_eq record_clip_work_eq record_clip_enter_eq record_clip_body_eq
        record_clip_cleanup_eq)

theorem record_clip_restart_iff_steps_succeed_witness:
  "(\<exists>w'. record_clip (failing [RestartStop, RestartConfigure]) ''20260101_120000'' 30 idle
          = (Inr (Some ''/srv/media/clip_20260101_120000.mp4''), w')
     \<and> trace w' = [Acquire RecordLock, SetRecording True, Release RecordLock,
                  Call NewEncoder, Call NewOutput,
                  Acquire CameraLock, Call StartRecording, Release CameraLock,
                  Sleep 30,
                  Acquire CameraLock, Call StopRecording, Release CameraLock,
                  Acquire CameraLock, Call RestartStopRecording, Call RestartStop,
                  Call RestartConfigure, Release CameraLock,
                  Call CloseOutput,
                  Acquire RecordLock, SetRecording False, Release RecordLock])
 \<and> Call RestartStopRecording
      \<notin> set (trace (snd (record_clip (failing []) ''20260101_120000'' 9223372037 idle)))"
  using record_clip_restart_iff_steps_succeed
    [of idle "failing [RestartStop, RestartConfigure]" "''20260101_120000''" 30]
    record_clip_restart_iff_steps_succeed
    [of idle "failing []" "''20260101_120000''" 9223372037]
  by (auto simp: failing_def idle_def path_join_def)

text \<open>
  Claim C3, as stated: on every exit path the recording sink is released. The cleanup closes
  the sink only when the sink object has a \<^verbatim>\<open>close\<close> attribute. With a sink that has none, a
  recording whose \<^verbatim>\<open>stop_recording\<close> raises leaves the sink it created and started without
  any call that releases it: after the failed call the work only clears the flag.
\<close>

theorem record_clip_sink_without_close_not_released:
  "fst (record_clip (without_close (failing [StopRecording])) ''20260101_120000'' 30 idle)
     = Inl (Raised StopRecording)
 \<and> output_sink
      (snd (record_clip (without_close (failing [StopRecording])) ''20260101_120000'' 30 idle))
     = Some ''/srv/media/clip_20260101_120000.mp4''
 \<and> trace
      (snd (record_clip (without_close (failing [StopRecording])) ''20260101_120000'' 30 idle))
     = [Acquire RecordLock, SetRecording True, Release RecordLock,
        Call NewEncoder, Call NewOutput,
        Acquire CameraLock, Call StartRecording, Release CameraLock,
        Sleep 30,
        Acquire CameraLock, Call StopRecording, Release CameraLock,
        Acquire RecordLock, SetRecording False, Release RecordLock]"
  by (simp add: record_clip_eq record_clip_work_eq record_clip_enter_eq record_clip_body_eq
        record_clip_cleanup_eq failing_def without_close_def idle_def path_join_def)

text \<open>
  Claim C3, amended. A recording that starts on an idle manager ends, on every path (success,
  or a failure of any of its steps), with the cleanup: the sink's \<^verbatim>\<open>close\<close> is called exactly
  when the sink was created and has a \<^verbatim>\<open>close\<close> attribute, and after that, as the last thing
  the work does, the flag is cleared under the record lock. Nothing before closes the sink or
  clears the flag. The sink exists exactly when the encoder and the sink were created, so it
  exists at every failure of a device step. In the state the work leaves, the flag is unset
  and a request is accepted.
\<close>

theorem record_clip_cleanup_on_every_path:
  assumes "\<not> recording w"
  shows "\<exists>r w' pre. record_clip en ts d w = (r, w')
     \<and> \<not> recording w'
     \<and> trace w' = trace w @ pre
         @ (if output_sink w' \<noteq> None \<and> has_close en then [Call CloseOutput] else [])
         @ [Acquire RecordLock, SetRecording False, Release RecordLock]
     \<and> Call CloseOutput \<notin> set pre \<and> SetRecording False \<notin> set pre
     \<and> (output_sink w' \<noteq> None \<longleftrightarrow> \<not> raises en NewEncoder \<and> \<not> raises en NewOutput)
     \<and> fst (start_record_clip_async d' w') = Inr True"
  using assms
  by (simp add: record_clip_eq record_clip_work_eq record_clip_enter_eq record_clip_body_eq
        record_clip_cleanup_eq start_record_clip_async_eq)

theorem record_clip_cleanup_on_every_path_witness:
  "(\<exists>r w'. record_clip (failing [StopRecording]) ''20260101_120000'' 30 idle = (r, w')
     \<and> r = Inl (Raised StopRecording)
     \<and> \<not> recording w'
     \<and> trace w' = [Acquire RecordLock, SetRecording True, Release RecordLock,
                  Call NewEncoder, Call NewOutput,
                  Acquire CameraLock, Call StartRecording, Release CameraLock,
                  Sleep 30,
                  Acquire CameraLock, Call StopRecording, Release CameraLock,
                  Call CloseOutput,
                  Acquire RecordLock, SetRecording False, Release RecordLock]
     \<and> fst (start_record_clip_async 30 w') = Inr True)
 \<and> (\<exists>r w'. record_clip (without_close (failing [])) ''20260101_120000'' 9223372037 idle
               = (r, w')
     \<and> r = Inl OverflowError
     \<and> \<not> recording w'
     \<and> trace w' = [Acquire RecordLock, SetRecording True, Release RecordLock,
                  Call NewEncoder, Call NewOutput,
                  Acquire CameraLock, Call StartRecording, Release CameraLock,
                  Acquire RecordLock, SetRecording False, Release RecordLock]
     \<and> fst (start_record_clip_async 30 w') = Inr True)"
  using record_clip_cleanup_on_every_path
    [of idle "failing [StopRecording]" "''20260101_120000''" 30 30]
    record_clip_cleanup_on_every_path
    [of idle "without_close (failing [])" "''20260101_120000''" 9223372037 30]
  by (auto simp: record_clip_eq record_clip_work_eq record_clip_enter_eq record_clip_body_eq
        record_clip_cleanup_eq failing_def without_close_def idle_def)

text \<open>
  Claim C8, as stated: for every requested duration the work sleeps \<open>max 1 duration\<close> seconds.
  A duration of 9223372037 seconds is more than \<^verbatim>\<open>time.sleep\<close> takes: the call raises
  \<^verbatim>\<open>OverflowError\<close>, the work does not sleep at all, and it goes from the started recording
  straight to the cleanup, without \<^verbatim>\<open>stop_recording\<close>.
\<close>

theorem record_clip_huge_duration_does_not_sleep:
  "fst (record_clip (failing []) ''20260101_120000'' 9223372037 idle) = Inl OverflowError
 \<and> sleeps (trace (snd (record_clip (failing []) ''20260101_120000'' 9223372037 idle))) = []
 \<and> trace (snd (record_clip (failing []) ''20260101_120000'' 9223372037 idle))
     = [Acquire RecordLock, SetRecording True, Release RecordLock,
        Call NewEncoder, Call NewOutput,
        Acquire CameraLock, Call StartRecording, Release CameraLock,
        Call CloseOutput,
        Acquire RecordLock, SetRecording False, Release RecordLock]"
  by (simp add: record_clip_eq record_clip_work_eq record_clip_enter_eq record_clip_body_eq
        record_clip_cleanup_eq failing_def idle_def)

text \<open>
  Claim C8, amended. The recording work sleeps at most once, and a sleep it makes lasts
  \<open>max 1 duration\<close> seconds, which is at least one. It makes that one sleep exactly when it
  has started recording (idle manager, encoder and sink created, \<^verbatim>\<open>start_recording\<close> succeeded)
  and the duration is one \<^verbatim>\<open>time.sleep\<close> takes: at most 9223372036 seconds, and not refused by
  the operating system. So a duration of zero or less still records for one second.
\<close>

theorem record_clip_sleep_clamped:
  "\<exists>r w' evs. record_clip en ts d w = (r, w') \<and> trace w' = trace w @ evs
     \<and> sleeps evs =
          (if \<not> recording w \<and> \<not> raises en NewEncoder \<and> \<not> raises en NewOutput
              \<and> \<not> raises en StartRecording \<and> d \<le> 9223372036 \<and> \<not> raises en TimeSleep
           then [max 1 d] else [])
     \<and> 1 \<le> max 1 d
     \<and> (d \<le> 0 \<longrightarrow> max 1 d = 1)"
  by (simp add: record_clip_eq record_clip_work_eq record_clip_enter_eq record_clip_body_eq
        record_clip_cleanup_eq sleeps_append)

theorem record_clip_sleep_clamped_witness:
  "sleeps (trace (snd (record_clip (failing []) ''20260101_120000'' (- 5) idle))) = [1]
 \<and> sleeps (trace (snd (record_clip (failing []) ''20260101_120000'' 0 idle))) = [1]
 \<and> sleeps (trace (snd (record_clip (failing []) ''20260101_120000'' 30 idle))) = [30]
 \<and> sleeps (trace (snd (record_clip (failing []) ''20260101_120000'' 9223372036 idle)))
     = [9223372036]"
  using record_clip_sleep_clamped [of "failing []" "''20260101_120000''" "- 5" idle]
        record_clip_sleep_clamped [of "failing []" "''20260101_120000''" 0 idle]
        record_clip_sleep_clamped [of "failing []" "''20260101_120000''" 30 idle]
        record_clip_sleep_clamped [of "failing []" "''20260101_120000''" 9223372036 idle]
  by (simp add: record_clip_eq record_clip_work_eq record_clip_enter_eq record_clip_body_eq
        record_clip_cleanup_eq failing_def idle_def)

subsection \<open>The restart sequence\<close>

text \<open>
  Claim C6, as stated: each of the four steps has its failure caught and ignored. Only the
  first two have. With \<^verbatim>\<open>configure\<close> raising, \<^verbatim>\<open>_restart_camera\<close> raises to its caller and
  \<^verbatim>\<open>start\<close> is never called.
\<close>

theorem restart_camera_configure_failure_propagates:
  "fst (restart_camera (failing [RestartConfigure]) idle) = Inl (Raised RestartConfigure)
 \<and> trace (snd (restart_camera (failing [RestartConfigure]) idle))
     = [Acquire CameraLock, Call RestartStopRecording, Call RestartStop,
        Call RestartConfigure, Release CameraLock]"
  by (simp add: restart_camera_eq failing_def idle_def)

text \<open>
  Claim C6, amended. Under the camera lock, taken first and released last on every path, the
  sequence calls stop-recording, stop, configure and start in this order. Whether the first
  two raise changes nothing: the outcome and the calls made do not depend on it. A failure of
  configure ends the sequence there, before start, and is raised to the caller; so is a failure
  of start.
\<close>

theorem restart_camera_sequence:
  "restart_camera en w =
     (if raises en RestartConfigure then Inl (Raised RestartConfigure)
      else if raises en RestartStart then Inl (Raised RestartStart)
      else Inr (),
      w\<lparr>trace := trace w
           @ [Acquire CameraLock, Call RestartStopRecording, Call RestartStop,
              Call RestartConfigure]
           @ (if raises en RestartConfigure then [] else [Call RestartStart])
           @ [Release CameraLock]\<rparr>)
 \<and> restart_camera
       (en\<lparr>raises := (raises en)(RestartStopRecording := b1, RestartStop := b2)\<rparr>) w
     = restart_camera en w"
  by (simp add: restart_camera_eq)

theorem restart_camera_sequence_witness:
  "fst (restart_camera (failing [RestartStopRecording, RestartStop]) idle) = Inr ()
 \<and> trace (snd (restart_camera (failing [RestartStopRecording, RestartStop]) idle))
     = [Acquire CameraLock, Call RestartStopRecording, Call RestartStop, Call RestartConfigure,
        Call RestartStart, Release CameraLock]"
  using restart_camera_sequence
    [of "failing [RestartStopRecording, RestartStop]" idle False False]
  by (simp add: failing_def idle_def)

subsection \<open>Stills\<close>

text \<open>
  Claim C5. \<^verbatim>\<open>capture_still\<close> reads the frame slot under the frame lock. With a frame in the
  slot it writes that frame to \<^verbatim>\<open>still_<timestamp>.jpg\<close> under the media directory and returns
  the path; the camera lock is not taken and no device call is made. With the slot empty it
  takes the camera lock, pulls a frame from the device, releases the lock, writes that frame
  and returns the path. (The external calls are taken to succeed: \<^verbatim>\<open>imwrite\<close> not raising
  for the path to be returned and returning true for the file to be there, the device pull not
  raising in the fallback.)
\<close>

theorem capture_still_slot_or_device:
  "(preview_frame w = Some f \<and> \<not> raises en ImWrite \<longrightarrow>
      (\<exists>w'. capture_still en ts w
               = (Inr (path_join (base_dir w) (''still_'' @ ts @ ''.jpg'')), w')
         \<and> trace w' = trace w @ [Acquire FrameLock, Release FrameLock, Call ImWrite]
         \<and> (imwrite_result en \<longrightarrow>
               files w' = (files w)(path_join (base_dir w) (''still_'' @ ts @ ''.jpg'')
                                      \<mapsto> f))))
 \<and> (preview_frame w = None \<and> \<not> raises en CaptureArray \<and> \<not> raises en ImWrite \<longrightarrow>
      (\<exists>w'. capture_still en ts w
               = (Inr (path_join (base_dir w) (''still_'' @ ts @ ''.jpg'')), w')
         \<and> trace w' = trace w @ [Acquire FrameLock, Release FrameLock,
                                  Acquire CameraLock, Call CaptureArray, Release CameraLock,
                                  Call ImWrite]
         \<and> (imwrite_result en \<longrightarrow>
               files w' = (files w)(path_join (base_dir w) (''still_'' @ ts @ ''.jpg'')
                                      \<mapsto> device_frame en))))"
  by (simp add: capture_still_eq Let_def)

theorem capture_still_slot_or_device_witness:
  "(\<exists>w'. capture_still (failing []) ''20260101_120000'' streaming
               = (Inr ''/srv/media/still_20260101_120000.jpg'', w')
        \<and> trace w' = [Acquire FrameLock, Release FrameLock, Call ImWrite]
        \<and> files w' ''/srv/media/still_20260101_120000.jpg'' = Some 5)
 \<and> (\<exists>w'. capture_still (failing []) ''20260101_120000'' idle
               = (Inr ''/srv/media/still_20260101_120000.jpg'', w')
        \<and> trace w' = [Acquire FrameLock, Release FrameLock,
                       Acquire CameraLock, Call CaptureArray, Release CameraLock, Call ImWrite]
        \<and> files w' ''/srv/media/still_20260101_120000.jpg'' = Some 7)"
  using capture_still_slot_or_device [of streaming 5 "failing []" "''20260101_120000''"]
        capture_still_slot_or_device [of idle 0 "failing []" "''20260101_120000''"]
  by (auto simp: failing_def streaming_def idle_def path_join_def)

text \<open>
  Claim C7, as stated: two calls with no new frame in between produce two files. The file name
  carries the clock to the second only, so two calls within one second return the same path
  and the second overwrites the first: starting from an empty media directory there is one
  file afterwards, not two.
\<close>

theorem capture_still_twice_same_second_one_file:
  "fst (capture_still (failing []) ''20260101_120000'' streaming)
     = Inr ''/srv/media/still_20260101_120000.jpg''
 \<and> fst (capture_still (failing []) ''20260101_120000''
          (snd (capture_still (failing []) ''20260101_120000'' streaming)))
     = Inr ''/srv/media/still_20260101_120000.jpg''
 \<and> dom (files (snd (capture_still (failing []) ''20260101_120000''
          (snd (capture_still (failing []) ''20260101_120000'' streaming)))))
     = {''/srv/media/still_20260101_120000.jpg''}"
  by (simp add: capture_still_eq Let_def failing_def streaming_def idle_def path_join_def)

text \<open>
  Claim C7, amended. With a frame in the slot and no frame published in between, two calls
  (whose writes succeed) read the same frame, make no device call, and each returns its
  timestamped path; afterwards each returned path holds that frame, and the media directory
  has gained exactly the returned paths. The two paths differ, so that there are two files,
  exactly when the two timestamps differ.
\<close>

theorem capture_still_twice:
  assumes "preview_frame w = Some f"
    and "\<not> raises en1 ImWrite" and "imwrite_result en1"
    and "\<not> raises en2 ImWrite" and "imwrite_result en2"
  shows "\<exists>w1 w2 p1 p2.
      capture_still en1 ts1 w = (Inr p1, w1) \<and> capture_still en2 ts2 w1 = (Inr p2, w2)
    \<and> p1 = path_join (base_dir w) (''still_'' @ ts1 @ ''.jpg'')
    \<and> p2 = path_join (base_dir w) (''still_'' @ ts2 @ ''.jpg'')
    \<and> preview_frame w1 = Some f \<and> preview_frame w2 = Some f
    \<and> files w2 p1 = Some f \<and> files w2 p2 = Some f
    \<and> dom (files w2) = dom (files w) \<union> {p1, p2}
    \<and> (p1 = p2 \<longleftrightarrow> ts1 = ts2)
    \<and> trace w2 = trace w @ [Acquire FrameLock, Release FrameLock, Call ImWrite,
                             Acquire FrameLock, Release FrameLock, Call ImWrite]"
  using assms
  by (auto simp: capture_still_eq Let_def path_join_def)

theorem capture_still_twice_witness:
  "\<exists>w1 w2. capture_still (failing []) ''20260101_120000'' streaming
               = (Inr ''/srv/media/still_20260101_120000.jpg'', w1)
     \<and> capture_still (failing []) ''20260101_120001'' w1
               = (Inr ''/srv/media/still_20260101_120001.jpg'', w2)
     \<and> files w2 ''/srv/media/still_20260101_120000.jpg'' = Some 5
     \<and> files w2 ''/srv/media/still_20260101_120001.jpg'' = Some 5
     \<and> dom (files w2) = {''/srv/media/still_20260101_120000.jpg'',
                          ''/srv/media/still_20260101_120001.jpg''}"
  using capture_still_twice
    [of streaming 5 "failing []" "failing []" "''20260101_120000''" "''20260101_120001''"]
  by (auto simp: failing_def streaming_def idle_def path_join_def)

subsection \<open>The motion loop\<close>

lemma motion_iteration_spaced:
  assumes "spaced m0" and "motion_iteration vis tk m0 w0 = (r, w1)"
  shows "\<exists>m1. r = Inr m1 \<and> spaced m1"
proof -
  obtain w1' where eq: "motion_iteration vis tk m0 w0 =
     (Inr (case preview_frame w0 of
             None \<Rightarrow> m0
           | Some frame \<Rightarrow>
               (case prev_gray m0 of
                  None \<Rightarrow> m0\<lparr>prev_gray := Some (smooth vis frame)\<rparr>
                | Some prev \<Rightarrow>
                    if motion_detected vis prev (smooth vis frame)
                       \<and> cool_down_until m0 < clock tk
                    then m0\<lparr>prev_gray := Some (smooth vis frame),
                            cool_down_until := clock tk + 40,
                            requests := requests m0
                              @ [\<lparr>trigger_time = clock tk, duration_arg = 30,
                                  accepted = (\<not> recording w0)\<rparr>]\<rparr>
                    else m0\<lparr>prev_gray := Some (smooth vis frame)\<rparr>)), w1')"
    using motion_iteration_eq by blast
  from assms(1) show ?thesis
    using assms(2) unfolding eq
    by (fastforce simp: spaced_def sorted_wrt_append split: option.splits if_splits)
qed

text \<open>Every pass keeps the requests well spaced, and the loop never raises.\<close>

lemma motion_passes_spaced:
  "spaced m0 \<Longrightarrow> \<exists>m w'. motion_passes vis tks m0 w = (Inr m, w') \<and> spaced m"
proof (induction tks arbitrary: m0 w)
  case Nil
  then show ?case by simp
next
  case (Cons tk tks)
  show ?case
  proof (cases "motion_stop_evt (others tk w)")
    case True
    with Cons.prems show ?thesis by (simp add: Let_def)
  next
    case False
    obtain r w1 where it: "motion_iteration vis tk m0 (others tk w) = (r, w1)"
      by (cases "motion_iteration vis tk m0 (others tk w)")
    with Cons.prems obtain m1 where m1: "r = Inr m1" "spaced m1"
      using motion_iteration_spaced by blast
    from Cons.IH [OF m1(2)] obtain m w'
      where "motion_passes vis tks m1 w1 = (Inr m, w')" "spaced m"
      by blast
    with False it m1 show ?thesis by (simp add: Let_def)
  qed
qed

lemma spaced_init: "spaced motion_init"
  by (simp add: spaced_def motion_init_def)

lemma motion_loop_spaced:
  "\<exists>m w'. motion_loop vis tks w = (Inr m, w')
      \<and> (\<forall>i j. i < j \<and> j < length (requests m) \<longrightarrow>
             trigger_time (requests m ! i) + 40 < trigger_time (requests m ! j))
      \<and> (\<forall>r \<in> set (requests m). duration_arg r = api_duration None)"
proof -
  obtain m w' where run: "motion_loop vis tks w = (Inr m, w')" and sp: "spaced m"
    using motion_passes_spaced [OF spaced_init] unfolding motion_loop_def by blast
  from sp have "\<forall>i j. i < j \<and> j < length (requests m) \<longrightarrow>
             trigger_time (requests m ! i) + 40 < trigger_time (requests m ! j)"
    by (simp add: spaced_def sorted_wrt_iff_nth_less)
  moreover from sp have "\<forall>r \<in> set (requests m). duration_arg r = api_duration None"
    by (simp add: spaced_def api_duration_def)
  ultimately show ?thesis using run by blast
qed

text \<open>
  Claim C4. In one run of the motion loop, over any passes and whatever the other threads do:
  a pass requests a clip exactly when there is a frame, a previous frame, motion between them,
  and the clock is past the cooldown deadline; the request is for 30 seconds; the deadline
  then becomes the clock plus 40, whether the request was accepted (flag unset) or refused
  (flag set); otherwise requests and deadline stay as they were. Hence any two requests of the
  run are more than 40 seconds apart on the clock the loop reads, and each asks for the
  duration a manual request without a duration gets.
\<close>

theorem motion_loop_rate_limited:
  "(\<exists>m w'. motion_loop vis tks w = (Inr m, w')
      \<and> (\<forall>i j. i < j \<and> j < length (requests m) \<longrightarrow>
             trigger_time (requests m ! i) + 40 < trigger_time (requests m ! j))
      \<and> (\<forall>r \<in> set (requests m). duration_arg r = api_duration None))
 \<and> (\<exists>m1 w1. motion_iteration vis tk m0 w0 = (Inr m1, w1)
      \<and> (if (\<exists>frame prev. preview_frame w0 = Some frame \<and> prev_gray m0 = Some prev
                \<and> motion_detected vis prev (smooth vis frame))
             \<and> cool_down_until m0 < clock tk
          then requests m1 = requests m0 @ [\<lparr>trigger_time = clock tk, duration_arg = 30,
                                              accepted = (\<not> recording w0)\<rparr>]
             \<and> cool_down_until m1 = clock tk + 40
          else requests m1 = requests m0 \<and> cool_down_until m1 = cool_down_until m0))"
proof -
  obtain w1 where "motion_iteration vis tk m0 w0 =
     (Inr (case preview_frame w0 of
             None \<Rightarrow> m0
           | Some frame \<Rightarrow>
               (case prev_gray m0 of
                  None \<Rightarrow> m0\<lparr>prev_gray := Some (smooth vis frame)\<rparr>
                | Some prev \<Rightarrow>
                    if motion_detected vis prev (smooth vis frame)
                       \<and> cool_down_until m0 < clock tk
                    then m0\<lparr>prev_gray := Some (smooth vis frame),
                            cool_down_until := clock tk + 40,
                            requests := requests m0
                              @ [\<lparr>trigger_time = clock tk, duration_arg = 30,
                                  accepted = (\<not> recording w0)\<rparr>]\<rparr>
                    else m0\<lparr>prev_gray := Some (smooth vis frame)\<rparr>)), w1)"
    using motion_iteration_eq by blast
  then have "\<exists>m1 w1. motion_iteration vis tk m0 w0 = (Inr m1, w1)
      \<and> (if (\<exists>frame prev. preview_frame w0 = Some frame \<and> prev_gray m0 = Some prev
                \<and> motion_detected vis prev (smooth vis frame))
             \<and> cool_down_until m0 < clock tk
          then requests m1 = requests m0 @ [\<lparr>trigger_time = clock tk, duration_arg = 30,
                                              accepted = (\<not> recording w0)\<rparr>]
             \<and> cool_down_until m1 = clock tk + 40
          else requests m1 = requests m0 \<and> cool_down_until m1 = cool_down_until m0)"
    by (auto split: option.splits)
  with motion_loop_spaced show ?thesis by blast
qed

text \<open>
  A run of six passes: the first frame is only stored; the second pass sees motion at 101 while
  a recording is active, so its request is refused and the deadline still moves to 141; the
  passes at 102 and at 141 are inside the cooldown; the pass at 190 sees the same frame again;
  the pass at 200 sees motion and its request is accepted.
\<close>

theorem motion_loop_rate_limited_witness:
  "\<exists>m w'. motion_loop toy_vision
            [publish 1 False 100, publish 2 True 101, publish 3 False 102,
             publish 4 False 141, publish 4 False 190, publish 5 False 200] idle = (Inr m, w')
     \<and> requests m = [\<lparr>trigger_time = 101, duration_arg = 30, accepted = False\<rparr>,
                     \<lparr>trigger_time = 200, duration_arg = 30, accepted = True\<rparr>]
     \<and> trigger_time (requests m ! 0) + 40 < trigger_time (requests m ! 1)"
  using motion_loop_rate_limited
    [of toy_vision "[publish 1 False 100, publish 2 True 101, publish 3 False 102,
                     publish 4 False 141, publish 4 False 190, publish 5 False 200]" idle
        "publish 2 True 101" "motion_init\<lparr>prev_gray := Some 1\<rparr>"
        "idle\<lparr>preview_frame := Some 2, recording := True\<rparr>"]
  by (auto simp: motion_loop_def motion_init_def motion_iteration_def bind_prog_def ret_def
        read_preview_frame_eq start_record_clip_async_eq motion_detected_def toy_vision_def
        publish_def idle_def Let_def)

end
